theory Spec2Isabelle
  imports Complex_Main "HOL-Library.Word" "HOL-Library.Log_Nat"
begin

unbundle bit_operations_syntax

section \<open>Single-precision values\<close>

text \<open>
  The module computes with C++ \<open>float\<close>. A finite \<open>float\<close> is a dyadic rational, so a
  \<open>float\<close> is modelled by the rational number it denotes, and every place where the
  compiler or the machine rounds is an application of \<open>f32\<close>: round to nearest, ties to
  even, 24 significant bits, exponents down to the subnormal \<open>2^-149\<close>. NaN and the
  infinities are not modelled; no operation of this module produces one (its floats
  are literals, conversions of 32-bit and 64-bit integers, one division by \<open>1e9\<close> and
  \<open>std::clamp\<close>, all far below \<open>2^128\<close>).
\<close>

type_synonym float = rat

definition pow2 :: "int \<Rightarrow> rat" where
  "pow2 e = (if 0 \<le> e then 2 ^ nat e else 1 / 2 ^ nat (- e))"

definition round_half_even :: "rat \<Rightarrow> int" where
  "round_half_even v =
     (let f = \<lfloor>v\<rfloor>; r = v - of_int f
      in if r < 1 / 2 then f else if 1 / 2 < r then f + 1 else if even f then f else f + 1)"

text \<open>
  The exponent of the last place of a positive \<open>v = p / q\<close>: \<open>v / 2^e0\<close> lies strictly
  between \<open>2^23\<close> and \<open>2^25\<close>, one comparison settles it, and \<open>-149\<close> is the floor.
\<close>

definition f32_exponent :: "rat \<Rightarrow> int" where
  "f32_exponent v =
     (let (p, q) = quotient_of v;
          e0 = bitlen p - bitlen q - 24;
          e1 = (if 2 ^ 24 \<le> v / pow2 e0 then e0 + 1 else e0)
      in max e1 (- 149))"

definition f32 :: "rat \<Rightarrow> float" where
  "f32 v = (if v = 0 then 0
            else let e = f32_exponent \<bar>v\<bar>
                 in sgn v * of_int (round_half_even (\<bar>v\<bar> / pow2 e)) * pow2 e)"

type_synonym u32 = "32 word"

text \<open>The implicit conversion of a \<open>u32\<close> to \<open>float\<close> (in \<open>ImVec2(pos.px, pos.py)\<close>).\<close>

definition float_of_u32 :: "u32 \<Rightarrow> float" where
  "float_of_u32 n = f32 (of_nat (unat n))"

text \<open>\<open>std::clamp(v, lo, hi)\<close>: \<open>(v < lo) ? lo : (hi < v) ? hi : v\<close>.\<close>

definition clamp :: "float \<Rightarrow> float \<Rightarrow> float \<Rightarrow> float" where
  "clamp v lo hi = (if v < lo then lo else if hi < v then hi else v)"

section \<open>Time\<close>

text \<open>
  A \<open>std::chrono::steady_clock::time_point\<close> is its tick count, in nanoseconds (the
  clock's period in libstdc++); the difference of two time points is a number of
  nanoseconds. \<open>std::chrono::duration<float>(d).count()\<close> converts the count to
  \<open>float\<close> and divides by \<open>1e9\<close> in \<open>float\<close>.
\<close>

type_synonym time_point = int

definition duration_float :: "int \<Rightarrow> float" where
  "duration_float d = f32 (f32 (of_int d) / f32 1000000000)"

section \<open>The platform SDK and the GUI library, as this module sees them\<close>

text \<open>
  \<open>AppletOperationMode\<close> and \<open>AppletHookType\<close> are C enumerations of the SDK: a value of
  such a type is an integer, and the \<open>default:\<close> label of a \<open>switch\<close> and the \<open>else\<close> of
  an \<open>if\<close> receive every value that has no name. The enumerators have the values the
  SDK header gives them.
\<close>

type_synonym AppletOperationMode = u32
type_synonym AppletHookType = u32

definition AppletOperationMode_Handheld :: AppletOperationMode where
  "AppletOperationMode_Handheld = 0"

definition AppletOperationMode_Docked :: AppletOperationMode where
  "AppletOperationMode_Docked = 1"

definition AppletHookType_OnFocusState :: AppletHookType where
  "AppletHookType_OnFocusState = 0"

definition AppletHookType_OnOperationMode :: AppletHookType where
  "AppletHookType_OnOperationMode = 1"

text \<open>\<open>touchPosition\<close> of the SDK: six \<open>u32\<close> fields.\<close>

record touchPosition =
  touch_id :: u32
  px :: u32
  py :: u32
  dx :: u32
  dy :: u32
  angle :: u32

datatype PlSharedFontType =
    PlSharedFontType_Standard
  | PlSharedFontType_ChineseSimplified
  | PlSharedFontType_ExtChineseSimplified
  | PlSharedFontType_ChineseTraditional
  | PlSharedFontType_KO
  | PlSharedFontType_NintendoExt

record PlFontData =
  font_type :: u32
  font_offset :: u32
  font_size :: u32
  font_address :: nat

text \<open>\<open>R_SUCCEEDED(rc)\<close> is \<open>rc == 0\<close>.\<close>

definition R_SUCCEEDED :: "u32 \<Rightarrow> bool" where
  "R_SUCCEEDED rc = (rc = 0)"

text \<open>
  What the SDK answers during one call into the module: the operation mode, the
  touch count, the touch sample for each point id, the result code and the font
  data of each shared-font query, and the steady clock, whose \<open>k\<close>-th reading
  within the call is \<open>steady_clock_now k\<close>.
\<close>

record env =
  appletGetOperationMode :: AppletOperationMode
  hidTouchCount :: u32
  hidTouchRead :: "u32 \<Rightarrow> touchPosition"
  plGetSharedFontByType :: "PlSharedFontType \<Rightarrow> u32 \<times> PlFontData"
  steady_clock_now :: "nat \<Rightarrow> time_point"

record ImVec2 =
  ImVec2_x :: float
  ImVec2_y :: float

text \<open>
  The fields of \<open>ImGuiIO\<close> that the module writes. \<open>MouseDown\<close> is a C array of five
  \<open>bool\<close>; the module only ever indexes it with the constant 0.
\<close>

record ImGuiIO =
  ConfigFlags :: u32
  DisplaySize :: ImVec2
  DeltaTime :: float
  IniFilename :: "string option"
  FontGlobalScale :: float
  DisplayFramebufferScale :: ImVec2
  MouseDrawCursor :: bool
  MousePos :: ImVec2
  MouseDown :: "nat \<Rightarrow> bool"

definition ImGuiConfigFlags_IsTouchScreen :: u32 where
  "ImGuiConfigFlags_IsTouchScreen = push_bit 21 1"

definition ImFontAtlasFlags_NoPowerOfTwoHeight :: u32 where
  "ImFontAtlasFlags_NoPowerOfTwoHeight = push_bit 0 1"

text \<open>
  The style, the font atlas, the applet hook list and the standard output belong to
  the libraries. Each is modelled by the sequence of operations the module has
  applied to it, in order: the module changes one of them exactly when it appends
  to its sequence.
\<close>

datatype style_op =
    Set_WindowRounding float
  | ScaleAllSizes float

record ImFontConfig =
  FontDataOwnedByAtlas :: bool
  MergeMode :: bool

datatype glyph_ranges =
    GetGlyphRangesDefault
  | Ranges "16 word list"

datatype atlas_op =
    AddFontFromMemoryTTF nat u32 float ImFontConfig glyph_ranges
  | GetTexDataAsAlpha8
  | Or_Flags u32
  | Build

datatype hook_cookie = Cookie_s_appletHookCookie

datatype hook_fn = Fn_handleAppletHook

datatype applet_op =
    AppletHook hook_cookie hook_fn "nat option"
  | AppletUnhook hook_cookie

section \<open>The module's state\<close>

text \<open>
  The statics of the anonymous namespace, the two function-local statics of
  \<open>newFrame\<close> (\<open>start\<close> and \<open>prev\<close>, both initialised the first time control passes
  their declarations, \<open>None\<close> before), and the library objects the module works on.
  \<open>s_lastMouseUpdate\<close> is declared and never used; \<open>s_appletHookCookie\<close> is only
  passed by address.
\<close>

record world =
  s_width :: float
  s_height :: float
  s_mousePos :: ImVec2
  newFrame_statics :: "(time_point \<times> time_point) option"
  io :: ImGuiIO
  style :: "style_op list"
  fonts :: "atlas_op list"
  applet :: "applet_op list"
  stdout :: "string list"

text \<open>The state at program start, around the GUI library's I/O structure.\<close>

definition startup :: "ImGuiIO \<Rightarrow> world" where
  "startup i =
     \<lparr> s_width = f32 1280, s_height = f32 720,
       s_mousePos = \<lparr> ImVec2_x = f32 0, ImVec2_y = f32 0 \<rparr>,
       newFrame_statics = None,
       io = i, style = [], fonts = [], applet = [], stdout = [] \<rparr>"

section \<open>The module's functions\<close>

text \<open>\<open>handleAppletHook(type, param)\<close>; \<open>param\<close> is not used.\<close>

definition handleAppletHook :: "AppletHookType \<Rightarrow> env \<Rightarrow> world \<Rightarrow> world" where
  "handleAppletHook type e w =
     (if type \<noteq> AppletHookType_OnOperationMode then w
      else if appletGetOperationMode e = AppletOperationMode_Docked then
        w \<lparr> stdout := stdout w @ [''Switching to 1080p mode'' @ [CHR 0x0A]],
            s_width := f32 1920, s_height := f32 1080,
            style := style w @ [ScaleAllSizes (f32 (f32 (26 / 10) / f32 (19 / 10)))],
            io := (io w) \<lparr> FontGlobalScale := f32 (16 / 10) \<rparr> \<rparr>
      else
        w \<lparr> stdout := stdout w @ [''Switching to 720p mode'' @ [CHR 0x0A]],
            s_width := f32 1280, s_height := f32 720,
            style := style w @ [ScaleAllSizes (f32 (f32 (19 / 10) / f32 (26 / 10)))],
            io := (io w) \<lparr> FontGlobalScale := f32 (9 / 10) \<rparr> \<rparr>)"

text \<open>\<open>updateTouch(io_)\<close>; \<open>io_\<close> is the reference to the I/O structure.\<close>

definition updateTouch :: "env \<Rightarrow> world \<Rightarrow> world" where
  "updateTouch e w =
     (let touchCount = hidTouchCount e
      in if touchCount < 1 then w
         else
           let pos = hidTouchRead e 0
           in w \<lparr> s_mousePos := \<lparr> ImVec2_x = float_of_u32 (px pos),
                                   ImVec2_y = float_of_u32 (py pos) \<rparr>,
                  io := (io w) \<lparr> MouseDown := (MouseDown (io w)) (0 := True) \<rparr> \<rparr>)"

definition extended_range :: "16 word list" where
  "extended_range = [0xe000, 0xe152]"

text \<open>
  \<open>init()\<close> returns its result and the new state. The two shared-font queries are
  joined by \<open>&&\<close>: the second is made only when the first succeeded. A query changes
  nothing in the state, so both answers are read here and the conjunction decides.
\<close>

definition init :: "env \<Rightarrow> world \<Rightarrow> bool \<times> world" where
  "init e w =
     (let (rc_standard, standard) = plGetSharedFontByType e PlSharedFontType_Standard;
          (rc_extended, extended) = plGetSharedFontByType e PlSharedFontType_NintendoExt;
          w1 = (if R_SUCCEEDED rc_standard \<and> R_SUCCEEDED rc_extended then
                  let font_cfg = \<lparr> FontDataOwnedByAtlas = False, MergeMode = False \<rparr>
                  in w \<lparr> fonts := fonts w @
                         [AddFontFromMemoryTTF (font_address standard) (font_size standard)
                            (f32 20) font_cfg GetGlyphRangesDefault,
                          AddFontFromMemoryTTF (font_address extended) (font_size extended)
                            (f32 20) (font_cfg \<lparr> MergeMode := True \<rparr>) (Ranges extended_range),
                          GetTexDataAsAlpha8,
                          Or_Flags ImFontAtlasFlags_NoPowerOfTwoHeight,
                          Build] \<rparr>
                else w);
          w2 = w1 \<lparr> style := style w1 @ [Set_WindowRounding (f32 0)] \<rparr>;
          mode = appletGetOperationMode e;
          w3 = (if mode = AppletOperationMode_Handheld then
                  w2 \<lparr> s_width := f32 1280, s_height := f32 720,
                       style := style w2 @ [ScaleAllSizes (f32 (19 / 10))],
                       io := (io w2) \<lparr> FontGlobalScale := f32 (9 / 10) \<rparr> \<rparr>
                else
                  w2 \<lparr> s_width := f32 1920, s_height := f32 1080,
                       style := style w2 @ [ScaleAllSizes (f32 (26 / 10))],
                       io := (io w2) \<lparr> FontGlobalScale := f32 (16 / 10) \<rparr> \<rparr>);
          w4 = w3 \<lparr> applet := applet w3 @
                       [AppletHook Cookie_s_appletHookCookie Fn_handleAppletHook None] \<rparr>;
          w5 = w4 \<lparr> io := (io w4) \<lparr> IniFilename := None \<rparr> \<rparr>;
          w6 = w5 \<lparr> io := (io w5)
                       \<lparr> ConfigFlags := ConfigFlags (io w5) OR ImGuiConfigFlags_IsTouchScreen \<rparr> \<rparr>;
          w7 = w6 \<lparr> io := (io w6) \<lparr> MouseDrawCursor := False \<rparr> \<rparr>
      in (True, w7))"

definition newFrame :: "env \<Rightarrow> world \<Rightarrow> world" where
  "newFrame e w =
     (let w1 = w \<lparr> io := (io w)
                     \<lparr> DisplaySize := \<lparr> ImVec2_x = s_width w, ImVec2_y = s_height w \<rparr>,
                       DisplayFramebufferScale := \<lparr> ImVec2_x = f32 1, ImVec2_y = f32 1 \<rparr> \<rparr> \<rparr>;
          (start, prev, k) =
             (case newFrame_statics w1 of
                None \<Rightarrow> (steady_clock_now e 0, steady_clock_now e 0, 1)
              | Some (start, prev) \<Rightarrow> (start, prev, 0));
          now = steady_clock_now e k;
          w2 = w1 \<lparr> io := (io w1) \<lparr> DeltaTime := duration_float (now - prev) \<rparr>,
                    newFrame_statics := Some (start, now) \<rparr>;
          w3 = updateTouch e w2;
          w4 = w3 \<lparr> s_mousePos := (s_mousePos w3)
                       \<lparr> ImVec2_x := clamp (ImVec2_x (s_mousePos w3)) (f32 0) (s_width w3) \<rparr> \<rparr>;
          w5 = w4 \<lparr> s_mousePos := (s_mousePos w4)
                       \<lparr> ImVec2_y := clamp (ImVec2_y (s_mousePos w4)) (f32 0) (s_height w4) \<rparr> \<rparr>
      in w5 \<lparr> io := (io w5) \<lparr> MousePos := s_mousePos w5 \<rparr> \<rparr>)"

definition exit :: "world \<Rightarrow> world" where
  "exit w = w \<lparr> applet := applet w @ [AppletUnhook Cookie_s_appletHookCookie] \<rparr>"

section \<open>Sequences of calls\<close>

text \<open>
  The host calls the three entry points, and the operating system calls the hook;
  nothing else reaches the statics. A run is any sequence of such calls, each with
  what the SDK answers during it.
\<close>

datatype call =
    Call_init env
  | Call_newFrame env
  | Call_exit
  | Call_handleAppletHook AppletHookType env

fun is_newFrame :: "call \<Rightarrow> bool" where
  "is_newFrame (Call_newFrame e) = True"
| "is_newFrame c = False"

fun step :: "call \<Rightarrow> world \<Rightarrow> world" where
  "step (Call_init e) w = snd (init e w)"
| "step (Call_newFrame e) w = newFrame e w"
| "step Call_exit w = exit w"
| "step (Call_handleAppletHook type e) w = handleAppletHook type e w"

fun run :: "call list \<Rightarrow> world \<Rightarrow> world" where
  "run [] w = w"
| "run (c # cs) w = run cs (step c w)"

text \<open>The two display sizes the module knows.\<close>

definition display_mode :: "world \<Rightarrow> bool" where
  "display_mode w =
     (s_width w = 1280 \<and> s_height w = 720 \<or> s_width w = 1920 \<and> s_height w = 1080)"

section \<open>Example inputs\<close>

text \<open>The I/O structure as the GUI library's constructor leaves it.\<close>

definition io_constructed :: ImGuiIO where
  "io_constructed =
     \<lparr> ConfigFlags = 0,
       DisplaySize = \<lparr> ImVec2_x = - 1, ImVec2_y = - 1 \<rparr>,
       DeltaTime = f32 (1 / 60),
       IniFilename = Some ''imgui.ini'',
       FontGlobalScale = 1,
       DisplayFramebufferScale = \<lparr> ImVec2_x = 1, ImVec2_y = 1 \<rparr>,
       MouseDrawCursor = False,
       MousePos = \<lparr> ImVec2_x = - (2 ^ 128 - 2 ^ 104), ImVec2_y = - (2 ^ 128 - 2 ^ 104) \<rparr>,
       MouseDown = (\<lambda>_. False) \<rparr>"

definition no_touch :: touchPosition where
  "no_touch = \<lparr> touch_id = 0, px = 0, py = 0, dx = 0, dy = 0, angle = 0 \<rparr>"

definition no_font :: PlFontData where
  "no_font = \<lparr> font_type = 0, font_offset = 0, font_size = 0, font_address = 0 \<rparr>"

text \<open>
  A console in the given mode, with the given touches on the screen, whose font
  service answers with the given result code and whose clock reads \<open>t\<close>, then
  \<open>t + 1\<close>, and so on.
\<close>

definition console :: "AppletOperationMode \<Rightarrow> touchPosition list \<Rightarrow> u32 \<Rightarrow> time_point \<Rightarrow> env" where
  "console mode touches rc t =
     \<lparr> appletGetOperationMode = mode,
       hidTouchCount = of_nat (length touches),
       hidTouchRead = (\<lambda>i. if unat i < length touches then touches ! unat i else no_touch),
       plGetSharedFontByType = (\<lambda>_. (rc, no_font)),
       steady_clock_now = (\<lambda>k. t + int k) \<rparr>"

definition finger :: "nat \<Rightarrow> nat \<Rightarrow> touchPosition" where
  "finger a b = \<lparr> touch_id = 0, px = of_nat a, py = of_nat b, dx = 0, dy = 0, angle = 0 \<rparr>"

section \<open>Facts about the float model\<close>

lemma f32_small_literals:
  "f32 0 = 0" "f32 1 = 1" "f32 20 = 20"
  "f32 720 = 720" "f32 1080 = 1080" "f32 1280 = 1280" "f32 1920 = 1920"
  by code_simp+

lemma f32_decimal_literals:
  "f32 (9 / 10) = 15099494 / 16777216"
  "f32 (16 / 10) = 13421773 / 8388608"
  "f32 (19 / 10) = 15938355 / 8388608"
  "f32 (26 / 10) = 10905190 / 4194304"
  by code_simp+

lemma enumerators_distinct:
  "AppletOperationMode_Handheld \<noteq> AppletOperationMode_Docked"
  "AppletHookType_OnFocusState \<noteq> AppletHookType_OnOperationMode"
  by (simp_all add: AppletOperationMode_Handheld_def AppletOperationMode_Docked_def
      AppletHookType_OnFocusState_def AppletHookType_OnOperationMode_def)

lemma round_half_even_of_int: "round_half_even (of_int k) = k"
  by (simp add: round_half_even_def)

text \<open>An integer below \<open>2^24\<close> is a \<open>float\<close>: converting it does not round.\<close>

lemma f32_exact_nat:
  assumes "m < 2 ^ 24"
  shows "f32 (of_nat m) = of_nat m"
proof (cases "m = 0")
  case True
  then show ?thesis by (simp add: f32_def)
next
  case False
  then have pos: "0 < int m" by simp
  define b where "b = bitlen (int m)"
  have lo: "2 ^ nat (b - 1) \<le> int m" and hi: "int m < 2 ^ nat b"
    using bitlen_bounds [OF pos] by (simp_all add: b_def)
  have b1: "1 \<le> b"
    using pos bitlen_eq_zero_iff [of "int m"] bitlen_nonneg [of "int m"] by (simp add: b_def)
  have b24: "b \<le> 24"
  proof (rule ccontr)
    assume "\<not> b \<le> 24"
    then have "24 \<le> nat (b - 1)" by simp
    then have "(2::int) ^ 24 \<le> 2 ^ nat (b - 1)" by (rule power_increasing) simp
    with lo have "(2::int) ^ 24 \<le> int m" by linarith
    moreover have "int m < 2 ^ 24" using assms by (simp only: of_nat_less_numeral_power_cancel_iff)
    ultimately show False by linarith
  qed
  have q: "quotient_of (of_nat m) = (int m, 1)"
    by (simp add: of_nat_rat quotient_of_Fract Rat.normalize_def)
  have b_one: "bitlen 1 = 1"
    by (simp add: bitlen_alt_def)
  define k where "k = nat (24 - b)"
  have nk: "nat (25 - b) = Suc k"
    unfolding k_def using b1 b24 by arith
  have p0: "pow2 (b - 25) = 1 / 2 ^ Suc k"
    using b24 by (simp add: pow2_def nk del: power_Suc)
  have p1: "pow2 (b - 24) = 1 / 2 ^ k"
  proof (cases "b = 24")
    case True
    then show ?thesis by (simp add: pow2_def k_def)
  next
    case False
    with b24 have "b - 24 < 0" by simp
    then show ?thesis by (simp add: pow2_def k_def)
  qed
  have nb: "nat (b - 1) + Suc k = 24"
    unfolding k_def using b1 b24 by arith
  have "(2::int) ^ 24 = 2 ^ nat (b - 1) * 2 ^ Suc k"
    by (simp only: power_add [symmetric] nb)
  also have "\<dots> \<le> int m * 2 ^ Suc k"
    using lo by (rule mult_right_mono) simp
  finally have big: "(2::int) ^ 24 \<le> int m * 2 ^ Suc k" .
  have "(of_int (2 ^ 24) :: rat) \<le> of_int (int m * 2 ^ Suc k)"
    using big by (simp only: of_int_le_iff)
  then have big': "(2::rat) ^ 24 \<le> of_nat m / pow2 (b - 25)"
    by (simp add: p0)
  have e: "f32_exponent (of_nat m) = b - 24"
    using big' b1 by (simp add: f32_exponent_def q b_one b_def [symmetric])
  have "(of_nat m :: rat) * 2 ^ k = of_int (int m * 2 ^ k)" by simp
  then have r: "round_half_even (of_nat m * 2 ^ k) = int m * 2 ^ k"
    by (simp only: round_half_even_of_int)
  show ?thesis
    using False by (simp add: f32_def e p1 r)
qed

lemma float_of_u32_exact: "unat n < 2 ^ 24 \<Longrightarrow> float_of_u32 n = of_nat (unat n)"
  unfolding float_of_u32_def by (rule f32_exact_nat)

lemma clamp_bounds: "lo \<le> hi \<Longrightarrow> lo \<le> clamp v lo hi \<and> clamp v lo hi \<le> hi"
  by (simp add: clamp_def)

section \<open>The display size stays one of the two modes\<close>

lemma display_mode_startup: "display_mode (startup i)"
  by (simp add: display_mode_def startup_def f32_small_literals)

lemma updateTouch_display:
  "s_width (updateTouch e w) = s_width w" "s_height (updateTouch e w) = s_height w"
  by (simp_all add: updateTouch_def Let_def)

lemma newFrame_display:
  "s_width (newFrame e w) = s_width w" "s_height (newFrame e w) = s_height w"
  by (simp_all add: newFrame_def updateTouch_display Let_def split: option.split prod.split)

lemma init_display: "display_mode (snd (init e w))"
  by (simp add: display_mode_def init_def Let_def f32_small_literals split: prod.split)

lemma display_mode_step:
  assumes "display_mode w"
  shows "display_mode (step c w)"
proof (cases c)
  case (Call_init e)
  then show ?thesis by (simp add: init_display)
next
  case (Call_newFrame e)
  with assms show ?thesis by (simp add: display_mode_def newFrame_display)
next
  case Call_exit
  with assms show ?thesis by (simp add: display_mode_def exit_def)
next
  case (Call_handleAppletHook t e)
  with assms show ?thesis
    by (simp add: display_mode_def handleAppletHook_def f32_small_literals)
qed

lemma display_mode_run: "display_mode w \<Longrightarrow> display_mode (run cs w)"
  by (induction cs arbitrary: w) (simp_all add: display_mode_step)

lemma newFrame_MousePos: "MousePos (io (newFrame e w)) = s_mousePos (newFrame e w)"
  by (simp add: newFrame_def Let_def split: option.split prod.split)

lemma newFrame_s_mousePos:
  "ImVec2_x (s_mousePos (newFrame e w)) =
     clamp (ImVec2_x (s_mousePos (updateTouch e w))) 0 (s_width w)"
  "ImVec2_y (s_mousePos (newFrame e w)) =
     clamp (ImVec2_y (s_mousePos (updateTouch e w))) 0 (s_height w)"
  by (simp_all add: newFrame_def updateTouch_def Let_def f32_small_literals
      split: option.split prod.split)

section \<open>Mouse button 0 and the frame clock across calls\<close>

lemma MouseDown_step: "MouseDown (io w) 0 \<Longrightarrow> MouseDown (io (step c w)) 0"
  by (cases c)
     (simp_all add: init_def newFrame_def updateTouch_def exit_def handleAppletHook_def Let_def
        split: prod.split option.split)

lemma MouseDown_run: "MouseDown (io w) 0 \<Longrightarrow> MouseDown (io (run cs w)) 0"
  by (induction cs arbitrary: w) (simp_all add: MouseDown_step)

lemma MouseDown_newFrame_touch: "1 \<le> hidTouchCount e \<Longrightarrow> MouseDown (io (newFrame e w)) 0"
  by (auto simp add: newFrame_def updateTouch_def Let_def split: prod.split option.split)

lemma statics_step: "\<not> is_newFrame c \<Longrightarrow> newFrame_statics (step c w) = newFrame_statics w"
  by (cases c)
     (simp_all add: init_def exit_def handleAppletHook_def Let_def split: prod.split)

lemma statics_run:
  "\<forall>c \<in> set cs. \<not> is_newFrame c \<Longrightarrow> newFrame_statics (run cs w) = newFrame_statics w"
  by (induction cs arbitrary: w) (simp_all add: statics_step)

lemma newFrame_clock:
  "newFrame_statics w = None \<Longrightarrow>
     DeltaTime (io (newFrame e w)) = duration_float (steady_clock_now e 1 - steady_clock_now e 0) \<and>
     newFrame_statics (newFrame e w) = Some (steady_clock_now e 0, steady_clock_now e 1)"
  "newFrame_statics w = Some (start, prev) \<Longrightarrow>
     DeltaTime (io (newFrame e w)) = duration_float (steady_clock_now e 0 - prev) \<and>
     newFrame_statics (newFrame e w) = Some (start, steady_clock_now e 0)"
  by (simp_all add: newFrame_def updateTouch_def Let_def split: prod.split option.split)

section \<open>The claims\<close>

text \<open>
  C1. Whenever the hook is called with the event \<open>OnOperationMode\<close>: in handheld mode the
  cached display size becomes 1280 by 720 and the font global scale becomes the \<open>float\<close>
  0.9; in docked mode they become 1920 by 1080 and the \<open>float\<close> 1.6.
\<close>

theorem handleAppletHook_operation_mode:
  "(appletGetOperationMode e = AppletOperationMode_Handheld \<longrightarrow>
      s_width (handleAppletHook AppletHookType_OnOperationMode e w) = 1280 \<and>
      s_height (handleAppletHook AppletHookType_OnOperationMode e w) = 720 \<and>
      FontGlobalScale (io (handleAppletHook AppletHookType_OnOperationMode e w)) = f32 (9 / 10)) \<and>
   (appletGetOperationMode e = AppletOperationMode_Docked \<longrightarrow>
      s_width (handleAppletHook AppletHookType_OnOperationMode e w) = 1920 \<and>
      s_height (handleAppletHook AppletHookType_OnOperationMode e w) = 1080 \<and>
      FontGlobalScale (io (handleAppletHook AppletHookType_OnOperationMode e w)) = f32 (16 / 10))"
  by (simp add: handleAppletHook_def f32_small_literals enumerators_distinct)

theorem handleAppletHook_operation_mode_witness:
  "appletGetOperationMode (console AppletOperationMode_Handheld [] 0 0)
     = AppletOperationMode_Handheld \<and>
   s_width (handleAppletHook AppletHookType_OnOperationMode
      (console AppletOperationMode_Handheld [] 0 0) (startup io_constructed)) = 1280 \<and>
   s_height (handleAppletHook AppletHookType_OnOperationMode
      (console AppletOperationMode_Handheld [] 0 0) (startup io_constructed)) = 720 \<and>
   FontGlobalScale (io (handleAppletHook AppletHookType_OnOperationMode
      (console AppletOperationMode_Handheld [] 0 0) (startup io_constructed))) = f32 (9 / 10) \<and>
   appletGetOperationMode (console AppletOperationMode_Docked [] 0 0)
     = AppletOperationMode_Docked \<and>
   s_width (handleAppletHook AppletHookType_OnOperationMode
      (console AppletOperationMode_Docked [] 0 0) (startup io_constructed)) = 1920 \<and>
   s_height (handleAppletHook AppletHookType_OnOperationMode
      (console AppletOperationMode_Docked [] 0 0) (startup io_constructed)) = 1080 \<and>
   FontGlobalScale (io (handleAppletHook AppletHookType_OnOperationMode
      (console AppletOperationMode_Docked [] 0 0) (startup io_constructed))) = f32 (16 / 10)"
  using handleAppletHook_operation_mode
          [of "console AppletOperationMode_Handheld [] 0 0" "startup io_constructed"]
        handleAppletHook_operation_mode
          [of "console AppletOperationMode_Docked [] 0 0" "startup io_constructed"]
  by (simp add: console_def)

text \<open>
  C2. From program start, after any sequence of calls into the module, a call of
  \<open>newFrame\<close> writes the cached pointer position to the I/O structure, and that position
  lies within the cached display size: \<open>0 \<le> x \<le> s_width\<close> and \<open>0 \<le> y \<le> s_height\<close>.
\<close>

theorem newFrame_pointer_within_display:
  "MousePos (io (newFrame e (run cs (startup i)))) = s_mousePos (newFrame e (run cs (startup i))) \<and>
   0 \<le> ImVec2_x (MousePos (io (newFrame e (run cs (startup i))))) \<and>
   ImVec2_x (MousePos (io (newFrame e (run cs (startup i)))))
     \<le> s_width (newFrame e (run cs (startup i))) \<and>
   0 \<le> ImVec2_y (MousePos (io (newFrame e (run cs (startup i))))) \<and>
   ImVec2_y (MousePos (io (newFrame e (run cs (startup i)))))
     \<le> s_height (newFrame e (run cs (startup i)))"
proof -
  let ?w = "run cs (startup i)"
  have "display_mode ?w"
    by (rule display_mode_run [OF display_mode_startup])
  then have "0 \<le> s_width ?w" and "0 \<le> s_height ?w"
    by (auto simp: display_mode_def)
  then show ?thesis
    using clamp_bounds [of 0 "s_width ?w"] clamp_bounds [of 0 "s_height ?w"]
    by (simp add: newFrame_MousePos newFrame_s_mousePos newFrame_display)
qed

text \<open>
  C3. \<open>init\<close> returns \<open>true\<close> whatever happens. When one of the two shared-font queries
  fails, \<open>init\<close> leaves the font atlas alone and does nothing else about the failure:
  the state it returns is the state it returns when both queries succeed, with the
  font atlas as it was.
\<close>

theorem init_tolerates_font_failure:
  "fst (init e w) = True \<and>
   (\<not> (R_SUCCEEDED (fst (plGetSharedFontByType e PlSharedFontType_Standard)) \<and>
        R_SUCCEEDED (fst (plGetSharedFontByType e PlSharedFontType_NintendoExt))) \<longrightarrow>
      fonts (snd (init e w)) = fonts w \<and>
      snd (init e w) =
        (snd (init (e \<lparr> plGetSharedFontByType := (\<lambda>_. (0, d)) \<rparr>) w)) \<lparr> fonts := fonts w \<rparr>)"
  by (simp add: init_def Let_def R_SUCCEEDED_def split: prod.split)

theorem init_tolerates_font_failure_witness:
  "\<not> (R_SUCCEEDED (fst (plGetSharedFontByType
          (console AppletOperationMode_Docked [] 1 0) PlSharedFontType_Standard)) \<and>
      R_SUCCEEDED (fst (plGetSharedFontByType
          (console AppletOperationMode_Docked [] 1 0) PlSharedFontType_NintendoExt))) \<and>
   fst (init (console AppletOperationMode_Docked [] 1 0) (startup io_constructed)) = True \<and>
   fonts (snd (init (console AppletOperationMode_Docked [] 1 0) (startup io_constructed))) = [] \<and>
   fonts (snd (init (console AppletOperationMode_Docked [] 0 0) (startup io_constructed))) \<noteq> []"
  using init_tolerates_font_failure
          [of "console AppletOperationMode_Docked [] 1 0" "startup io_constructed" no_font]
  by (simp add: console_def R_SUCCEEDED_def startup_def init_def Let_def)

text \<open>
  C4. \<open>updateTouch\<close> tests the touch count and nothing else. With a touch count below 1
  it changes nothing at all. With a touch count of at least 1 it sets the cached
  pointer position to the coordinates of the first touch sample, converted to
  \<open>float\<close>, and sets mouse button 0 to pressed.
\<close>

theorem updateTouch_effect:
  "(hidTouchCount e < 1 \<longrightarrow> updateTouch e w = w) \<and>
   (1 \<le> hidTouchCount e \<longrightarrow>
      s_mousePos (updateTouch e w) =
        \<lparr> ImVec2_x = float_of_u32 (px (hidTouchRead e 0)),
          ImVec2_y = float_of_u32 (py (hidTouchRead e 0)) \<rparr> \<and>
      MouseDown (io (updateTouch e w)) 0 = True)"
  by (simp add: updateTouch_def Let_def not_less)

theorem updateTouch_effect_witness:
  "hidTouchCount (console AppletOperationMode_Handheld [] 0 0) < 1 \<and>
   updateTouch (console AppletOperationMode_Handheld [] 0 0) (startup io_constructed)
     = startup io_constructed \<and>
   1 \<le> hidTouchCount (console AppletOperationMode_Handheld [finger 640 360] 0 0) \<and>
   s_mousePos (updateTouch (console AppletOperationMode_Handheld [finger 640 360] 0 0)
      (startup io_constructed)) = \<lparr> ImVec2_x = 640, ImVec2_y = 360 \<rparr> \<and>
   MouseDown (io (updateTouch (console AppletOperationMode_Handheld [finger 640 360] 0 0)
      (startup io_constructed))) 0 = True"
  using updateTouch_effect
          [of "console AppletOperationMode_Handheld [] 0 0" "startup io_constructed"]
        updateTouch_effect
          [of "console AppletOperationMode_Handheld [finger 640 360] 0 0" "startup io_constructed"]
  by (simp add: console_def finger_def float_of_u32_exact)

text \<open>
  C5. Every call of \<open>newFrame\<close> sets \<open>DeltaTime\<close> to the time between the stored previous
  time point and now, as \<open>float\<close> seconds, and stores now as the previous time point.
  On the first call the previous time point is the start point, read from the clock
  in that call and fixed from then on. No other call of the module touches the stored
  time points, so on a later call the previous time point is the now of the previous
  call of \<open>newFrame\<close>.
\<close>

theorem newFrame_delta_time:
  "(newFrame_statics w = None \<longrightarrow>
      DeltaTime (io (newFrame e w))
        = duration_float (steady_clock_now e 1 - steady_clock_now e 0) \<and>
      newFrame_statics (newFrame e w) = Some (steady_clock_now e 0, steady_clock_now e 1)) \<and>
   (newFrame_statics w = Some (start, prev) \<longrightarrow>
      DeltaTime (io (newFrame e w)) = duration_float (steady_clock_now e 0 - prev) \<and>
      newFrame_statics (newFrame e w) = Some (start, steady_clock_now e 0)) \<and>
   ((\<forall>c \<in> set cs. \<not> is_newFrame c) \<longrightarrow>
      DeltaTime (io (newFrame e' (run cs (newFrame e w))))
        = duration_float (steady_clock_now e' 0
            - steady_clock_now e (case newFrame_statics w of None \<Rightarrow> 1 | Some s \<Rightarrow> 0)) \<and>
      fst (the (newFrame_statics (newFrame e' (run cs (newFrame e w)))))
        = fst (the (newFrame_statics (newFrame e w))))"
proof (intro conjI impI)
  assume "newFrame_statics w = None"
  then show "DeltaTime (io (newFrame e w))
        = duration_float (steady_clock_now e 1 - steady_clock_now e 0)"
    and "newFrame_statics (newFrame e w) = Some (steady_clock_now e 0, steady_clock_now e 1)"
    by (simp_all add: newFrame_clock)
next
  assume "newFrame_statics w = Some (start, prev)"
  then show "DeltaTime (io (newFrame e w)) = duration_float (steady_clock_now e 0 - prev)"
    and "newFrame_statics (newFrame e w) = Some (start, steady_clock_now e 0)"
    by (simp_all add: newFrame_clock)
next
  assume quiet: "\<forall>c \<in> set cs. \<not> is_newFrame c"
  let ?now = "steady_clock_now e (case newFrame_statics w of None \<Rightarrow> 1 | Some s \<Rightarrow> 0)"
  obtain s where first: "newFrame_statics (newFrame e w) = Some (s, ?now)"
    using newFrame_clock(1) [of w e] newFrame_clock(2) [of w _ _ e]
    by (cases "newFrame_statics w") auto
  with quiet have "newFrame_statics (run cs (newFrame e w)) = Some (s, ?now)"
    by (simp add: statics_run)
  from newFrame_clock(2) [OF this, of e'] first
  show "DeltaTime (io (newFrame e' (run cs (newFrame e w))))
        = duration_float (steady_clock_now e' 0 - ?now)"
    and "fst (the (newFrame_statics (newFrame e' (run cs (newFrame e w)))))
        = fst (the (newFrame_statics (newFrame e w)))"
    by simp_all
qed

theorem newFrame_delta_time_witness:
  "newFrame_statics (startup io_constructed) = None \<and>
   DeltaTime (io (newFrame (console AppletOperationMode_Handheld [] 0 1000)
      (startup io_constructed))) = duration_float 1 \<and>
   newFrame_statics (newFrame (console AppletOperationMode_Handheld [] 0 1000)
      (startup io_constructed)) = Some (1000, 1001) \<and>
   \<not> is_newFrame Call_exit \<and>
   DeltaTime (io (newFrame (console AppletOperationMode_Handheld [] 0 16667668)
      (run [Call_exit] (newFrame (console AppletOperationMode_Handheld [] 0 1000)
         (startup io_constructed))))) = duration_float 16666667 \<and>
   duration_float 16666667 = 8947849 / 536870912"
proof -
  have "duration_float 16666667 = 8947849 / 536870912"
    by code_simp
  then show ?thesis
    using newFrame_delta_time
          [of "startup io_constructed" "console AppletOperationMode_Handheld [] 0 1000"
              0 0 "[Call_exit]" "console AppletOperationMode_Handheld [] 0 16667668"]
    by (simp add: console_def startup_def)
qed

text \<open>
  C6. \<open>init\<close> registers the hook with exactly one call of \<open>appletHook\<close>, and sets the
  display size and the font scale from the operation mode it reads: 1280 by 720 and
  the \<open>float\<close> 0.9 in handheld mode, 1920 by 1080 and the \<open>float\<close> 1.6 for every other
  value of the mode.
\<close>

theorem init_hook_and_mode:
  "applet (snd (init e w)) =
     applet w @ [AppletHook Cookie_s_appletHookCookie Fn_handleAppletHook None] \<and>
   (appletGetOperationMode e = AppletOperationMode_Handheld \<longrightarrow>
      s_width (snd (init e w)) = 1280 \<and> s_height (snd (init e w)) = 720 \<and>
      FontGlobalScale (io (snd (init e w))) = f32 (9 / 10)) \<and>
   (appletGetOperationMode e \<noteq> AppletOperationMode_Handheld \<longrightarrow>
      s_width (snd (init e w)) = 1920 \<and> s_height (snd (init e w)) = 1080 \<and>
      FontGlobalScale (io (snd (init e w))) = f32 (16 / 10))"
  by (simp add: init_def Let_def f32_small_literals split: prod.split)

theorem init_hook_and_mode_witness:
  "appletGetOperationMode (console AppletOperationMode_Handheld [] 0 0)
     = AppletOperationMode_Handheld \<and>
   s_width (snd (init (console AppletOperationMode_Handheld [] 0 0) (startup io_constructed)))
     = 1280 \<and>
   FontGlobalScale (io (snd (init (console AppletOperationMode_Handheld [] 0 0)
      (startup io_constructed)))) = f32 (9 / 10) \<and>
   appletGetOperationMode (console AppletOperationMode_Docked [] 0 0)
     \<noteq> AppletOperationMode_Handheld \<and>
   s_width (snd (init (console AppletOperationMode_Docked [] 0 0) (startup io_constructed)))
     = 1920 \<and>
   FontGlobalScale (io (snd (init (console AppletOperationMode_Docked [] 0 0)
      (startup io_constructed)))) = f32 (16 / 10) \<and>
   applet (snd (init (console AppletOperationMode_Docked [] 0 0) (startup io_constructed)))
     = [AppletHook Cookie_s_appletHookCookie Fn_handleAppletHook None]"
  using init_hook_and_mode
          [of "console AppletOperationMode_Handheld [] 0 0" "startup io_constructed"]
        init_hook_and_mode
          [of "console AppletOperationMode_Docked [] 0 0" "startup io_constructed"]
        enumerators_distinct(1)
  by (simp add: console_def startup_def)

text \<open>
  C7. \<open>exit\<close> calls \<open>appletUnhook\<close> on the module's cookie and changes nothing else: the
  cached display size, the cached pointer position and the I/O structure are as
  before, and so are the stored time points, the style, the font atlas and the output.
\<close>

theorem exit_only_unhooks:
  "applet (exit w) = applet w @ [AppletUnhook Cookie_s_appletHookCookie] \<and>
   s_width (exit w) = s_width w \<and> s_height (exit w) = s_height w \<and>
   s_mousePos (exit w) = s_mousePos w \<and> io (exit w) = io w \<and>
   newFrame_statics (exit w) = newFrame_statics w \<and>
   style (exit w) = style w \<and> fonts (exit w) = fonts w \<and> stdout (exit w) = stdout w"
  by (simp add: exit_def)

text \<open>
  C8. Called with any event other than \<open>OnOperationMode\<close>, the hook returns at once:
  the whole state, and so the cached display size, the style and the font global
  scale, is unchanged.
\<close>

theorem handleAppletHook_other_event:
  "type \<noteq> AppletHookType_OnOperationMode \<Longrightarrow> handleAppletHook type e w = w"
  by (simp add: handleAppletHook_def)

theorem handleAppletHook_other_event_witness:
  "AppletHookType_OnFocusState \<noteq> AppletHookType_OnOperationMode \<and>
   handleAppletHook AppletHookType_OnFocusState (console AppletOperationMode_Docked [] 0 0)
     (startup io_constructed) = startup io_constructed"
  using handleAppletHook_other_event [of AppletHookType_OnFocusState
      "console AppletOperationMode_Docked [] 0 0" "startup io_constructed"]
  by (simp add: enumerators_distinct)

text \<open>
  C9. For an operation mode that is neither \<open>Handheld\<close> nor \<open>Docked\<close> the two switches
  disagree: the hook's \<open>default\<close> label applies the handheld settings (1280 by 720, the
  \<open>float\<close> 0.9), and the \<open>else\<close> branch of \<open>init\<close> applies the docked settings (1920 by
  1080, the \<open>float\<close> 1.6).
\<close>

theorem unknown_mode_hook_handheld_init_docked:
  "appletGetOperationMode e \<noteq> AppletOperationMode_Handheld \<Longrightarrow>
   appletGetOperationMode e \<noteq> AppletOperationMode_Docked \<Longrightarrow>
   s_width (handleAppletHook AppletHookType_OnOperationMode e w) = 1280 \<and>
   s_height (handleAppletHook AppletHookType_OnOperationMode e w) = 720 \<and>
   FontGlobalScale (io (handleAppletHook AppletHookType_OnOperationMode e w)) = f32 (9 / 10) \<and>
   s_width (snd (init e w)) = 1920 \<and>
   s_height (snd (init e w)) = 1080 \<and>
   FontGlobalScale (io (snd (init e w))) = f32 (16 / 10)"
  by (simp add: handleAppletHook_def init_def Let_def f32_small_literals split: prod.split)

theorem unknown_mode_hook_handheld_init_docked_witness:
  "appletGetOperationMode (console 2 [] 0 0) \<noteq> AppletOperationMode_Handheld \<and>
   appletGetOperationMode (console 2 [] 0 0) \<noteq> AppletOperationMode_Docked \<and>
   s_width (handleAppletHook AppletHookType_OnOperationMode (console 2 [] 0 0)
      (startup io_constructed)) = 1280 \<and>
   s_width (snd (init (console 2 [] 0 0) (startup io_constructed))) = 1920 \<and>
   FontGlobalScale (io (handleAppletHook AppletHookType_OnOperationMode (console 2 [] 0 0)
      (startup io_constructed))) = 15099494 / 16777216 \<and>
   FontGlobalScale (io (snd (init (console 2 [] 0 0) (startup io_constructed))))
     = 13421773 / 8388608"
proof -
  have "appletGetOperationMode (console 2 [] 0 0) \<noteq> AppletOperationMode_Handheld"
    and "appletGetOperationMode (console 2 [] 0 0) \<noteq> AppletOperationMode_Docked"
    by (simp_all add: console_def AppletOperationMode_Handheld_def AppletOperationMode_Docked_def)
  then show ?thesis
    using unknown_mode_hook_handheld_init_docked [of "console 2 [] 0 0" "startup io_constructed"]
    unfolding f32_decimal_literals by blast
qed

text \<open>
  C10. No call into the module sets \<open>MouseDown[0]\<close> to false: a pressed button 0 is
  still pressed after any single call, and once a call of \<open>newFrame\<close> has seen a touch,
  button 0 is pressed after every later sequence of calls, whatever their touch counts.
\<close>

theorem mouse_button_never_released:
  "(MouseDown (io w) 0 \<longrightarrow> MouseDown (io (step c w)) 0) \<and>
   (1 \<le> hidTouchCount e \<longrightarrow> MouseDown (io (run cs (newFrame e w))) 0)"
  using MouseDown_step MouseDown_run MouseDown_newFrame_touch by blast

theorem mouse_button_never_released_witness:
  "1 \<le> hidTouchCount (console AppletOperationMode_Handheld [finger 100 200] 0 0) \<and>
   hidTouchCount (console AppletOperationMode_Handheld [] 0 5) < 1 \<and>
   \<not> MouseDown (io (startup io_constructed)) 0 \<and>
   MouseDown (io (newFrame (console AppletOperationMode_Handheld [finger 100 200] 0 0)
      (startup io_constructed))) 0 \<and>
   MouseDown (io (step (Call_newFrame (console AppletOperationMode_Handheld [] 0 5))
      (newFrame (console AppletOperationMode_Handheld [finger 100 200] 0 0)
         (startup io_constructed)))) 0 \<and>
   MouseDown (io (run [Call_newFrame (console AppletOperationMode_Handheld [] 0 5), Call_exit]
      (newFrame (console AppletOperationMode_Handheld [finger 100 200] 0 0)
         (startup io_constructed)))) 0"
proof -
  let ?e = "console AppletOperationMode_Handheld [finger 100 200] 0 0"
  let ?q = "console AppletOperationMode_Handheld [] 0 5"
  let ?w = "startup io_constructed"
  have touch: "1 \<le> hidTouchCount ?e" and none: "hidTouchCount ?q < 1"
    and up: "\<not> MouseDown (io ?w) 0"
    by (simp_all add: console_def startup_def io_constructed_def)
  have a: "MouseDown (io (newFrame ?e ?w)) 0"
    using mouse_button_never_released [of ?w "Call_exit" ?e "[]"] touch by simp
  have b: "MouseDown (io (step (Call_newFrame ?q) (newFrame ?e ?w))) 0"
    using mouse_button_never_released [of "newFrame ?e ?w" "Call_newFrame ?q" ?e "[]"] a
    by blast
  have c: "MouseDown (io (run [Call_newFrame ?q, Call_exit] (newFrame ?e ?w))) 0"
    using mouse_button_never_released [of ?w "Call_exit" ?e "[Call_newFrame ?q, Call_exit]"] touch
    by blast
  from touch none up a b c show ?thesis by blast
qed

end
